theory Spec2Isabelle
  imports Main "HOL-Library.Word" "HOL-Library.FSet"
begin

unbundle bit_operations_syntax

section \<open>The player entity of the game server (player.cpp)\<close>

text \<open>
  The development embeds the member functions of \<open>Player\<close> that the specification
  talks about: storage values, the VIP list, unjustified kills and skulls, the
  Battle Instinct stage of the Wheel of Destiny, skill and magic level advancement,
  experience gain and loss, death, and the placement query \<open>queryAdd\<close>.

  Member functions take the player as an explicit argument and return the updated
  player. Process-wide collaborators (configuration, vocations, the event bus, the
  world map) are passed as arguments. Text messages sent to the client are appended
  to the field \<open>messages\<close>; every other client notification has no effect on the
  player and is left out.
\<close>

subsection \<open>Machine integers\<close>

type_synonym u8 = "8 word"
type_synonym u16 = "16 word"
type_synonym u32 = "32 word"
type_synonym u64 = "64 word"
type_synonym i32 = "32 word" \<comment> \<open>read with \<open>sint\<close>\<close>
type_synonym i64 = "64 word" \<comment> \<open>read with \<open>sint\<close>\<close>

subsection \<open>Storage keys\<close>

text \<open>
  The reserved key ranges are named by the macro \<open>IS_IN_KEYRANGE(key, range)\<close>. The
  macro and the bounds of the ranges are defined outside player.cpp, so membership is
  a parameter \<open>inr\<close> of the model: \<open>inr r key\<close> stands for \<open>IS_IN_KEYRANGE(key, r)\<close>.
\<close>

datatype keyrange = RESERVED_RANGE | OUTFITS_RANGE | MOUNTS_RANGE | FAMILIARS_RANGE

type_synonym keyranges = "keyrange \<Rightarrow> u32 \<Rightarrow> bool"

text \<open>
  One instance of the parameter, used to run the model on concrete keys: the reserved
  block starts at 10000000 and has size 10000000; outfits sit at offset 1000 (size
  500), mounts at offset 2001 (size 10) and familiars at offset 3000 (size 500); a key
  is in a range when \<open>start \<le> key\<close> and \<open>key - start \<le> size\<close>.
\<close>

fun PSTRG_START :: "keyrange \<Rightarrow> u32" where
  "PSTRG_START RESERVED_RANGE = 10000000"
| "PSTRG_START OUTFITS_RANGE = 10000000 + 1000"
| "PSTRG_START MOUNTS_RANGE = 10000000 + 2001"
| "PSTRG_START FAMILIARS_RANGE = 10000000 + 3000"

fun PSTRG_SIZE :: "keyrange \<Rightarrow> u32" where
  "PSTRG_SIZE RESERVED_RANGE = 10000000"
| "PSTRG_SIZE OUTFITS_RANGE = 500"
| "PSTRG_SIZE MOUNTS_RANGE = 10"
| "PSTRG_SIZE FAMILIARS_RANGE = 500"

definition PSTRG_ranges :: keyranges where
  "PSTRG_ranges r key = (PSTRG_START r \<le> key \<and> key - PSTRG_START r \<le> PSTRG_SIZE r)"

subsection \<open>Player state\<close>

datatype PlayerFlag =
    PlayerFlag_NotGainInFight
  | PlayerFlag_NotGainMana
  | PlayerFlag_IsAlwaysPremium
  | PlayerFlag_CannotPickupItem
  | PlayerFlag_HasInfiniteCapacity

datatype Skulls_t =
  SKULL_NONE | SKULL_YELLOW | SKULL_GREEN | SKULL_WHITE | SKULL_RED | SKULL_BLACK | SKULL_ORANGE

datatype WorldType_t = WORLD_TYPE_NO_PVP | WORLD_TYPE_PVP | WORLD_TYPE_PVP_ENFORCED

text \<open>An entry of \<open>unjustifiedKills\<close>: target guid, time of the kill (seconds), unavenged.\<close>

record Kill =
  kill_target :: u32
  kill_time :: int
  unavenged :: bool

record Position =
  pos_x :: u16
  pos_y :: u16
  pos_z :: u8

datatype WheelOfDestinyMajor_t =
    WHEEL_OF_DESTINY_MAJOR_MELEE
  | WHEEL_OF_DESTINY_MAJOR_DISTANCE
  | WHEEL_OF_DESTINY_MAJOR_SHIELD
  | WHEEL_OF_DESTINY_MAJOR_MAGIC

datatype WheelOfDestinyOnThink_t =
    WHEEL_OF_DESTINY_ONTHINK_BATTLE_INSTINCT
  | WHEEL_OF_DESTINY_ONTHINK_POSITIONAL_TATICS
  | WHEEL_OF_DESTINY_ONTHINK_BALLISTIC_MASTERY

text \<open>
  What the player code asks of another creature: its identity (pointer equality of
  creatures is equality of their ids), whether it is a player or a monster, its
  name and its master.
\<close>

datatype creature =
  Creature (cid: u32) (isPlayer: bool) (isMonster: bool) (cname: string) (getMaster: "creature option")


text \<open>
  Modelled from the spec: the enumeration \<open>skills_t\<close> is declared outside player.cpp.
  The spec enumerates the skills fist, club, sword, axe, distance, shield and fishing
  (these run from \<open>SKILL_FIRST\<close> to \<open>SKILL_LAST\<close>); magic level and level are the two
  further values passed to the advance events.
\<close>

datatype skills_t =
    SKILL_FIST | SKILL_CLUB | SKILL_SWORD | SKILL_AXE | SKILL_DISTANCE | SKILL_SHIELD
  | SKILL_FISHING | SKILL_MAGLEVEL | SKILL_LEVEL

definition SKILL_FIRST_TO_LAST :: "skills_t list" where
  "SKILL_FIRST_TO_LAST =
     [SKILL_FIST, SKILL_CLUB, SKILL_SWORD, SKILL_AXE, SKILL_DISTANCE, SKILL_SHIELD, SKILL_FISHING]"

text \<open>
  Values of type \<open>double\<close> are modelled by rationals and the operations on them by
  the exact operations. A skill entry holds the tries, the level and the percent
  towards the next level.
\<close>

record Skill =
  tries :: u64
  skill_level :: u16
  percent :: rat

text \<open>What the player code asks of a vocation.\<close>

record Vocation =
  vocId :: u16
  getReqSkillTries :: "skills_t \<Rightarrow> u16 \<Rightarrow> u64"
  getReqMana :: "u32 \<Rightarrow> u64"
  getHPGain :: u32
  getManaGain :: u32
  getCapGain :: u32

text \<open>A piece of a text message: the stream insertions of the source, in order.\<close>

datatype piece = Str string | Num int | SkillName skills_t

datatype MessageClasses = MESSAGE_FAILURE | MESSAGE_EVENT_ADVANCE | MESSAGE_EXPERIENCE

text \<open>An entry of the damage map: the damage dealt and the time of the last hit (ms).\<close>

record CountBlock_t =
  total :: int
  ticks :: int

datatype ConditionType_t = CONDITION_INFIGHT | CONDITION_OTHER nat

record Condition =
  ctype :: ConditionType_t
  isPersistent :: bool

datatype OperatingSystem_t = CLIENTOS_NEW_WINDOWS | CLIENTOS_NEW_MAC | CLIENTOS_OTHER nat

subsubsection \<open>Items and slots\<close>

datatype slots_t =
    CONST_SLOT_WHEREEVER | CONST_SLOT_HEAD | CONST_SLOT_NECKLACE | CONST_SLOT_BACKPACK
  | CONST_SLOT_ARMOR | CONST_SLOT_RIGHT | CONST_SLOT_LEFT | CONST_SLOT_LEGS | CONST_SLOT_FEET
  | CONST_SLOT_RING | CONST_SLOT_AMMO | CONST_SLOT_STORE_INBOX

text \<open>
  The \<open>index\<close> argument of the cylinder queries: a slot, \<open>-1\<close> (\<open>INDEX_WHEREEVER\<close>), or
  any other integer.
\<close>

datatype slot_index = Slot slots_t | INDEX_WHEREEVER | OtherIndex

text \<open>
  The bits of an item's slot position; \<open>slotPosition & SLOTP_X\<close> is nonzero when the
  bit is in the set.
\<close>

datatype SlotPositionBits =
    SLOTP_HEAD | SLOTP_NECKLACE | SLOTP_BACKPACK | SLOTP_ARMOR | SLOTP_RIGHT | SLOTP_LEFT
  | SLOTP_LEGS | SLOTP_FEET | SLOTP_RING | SLOTP_AMMO | SLOTP_DEPOT | SLOTP_TWO_HAND

datatype WeaponType_t =
    WEAPON_NONE | WEAPON_SWORD | WEAPON_CLUB | WEAPON_AXE | WEAPON_SHIELD | WEAPON_DISTANCE
  | WEAPON_WAND | WEAPON_AMMO | WEAPON_QUIVER

datatype CylinderFlag = FLAG_NOLIMIT | FLAG_CHILDISOWNER | FLAG_IGNOREAUTOSTACK

text \<open>
  An item as the placement query sees it. \<open>itemRef\<close> is the identity of the object
  (pointer equality of items is equality of \<open>itemRef\<close>); \<open>topParent\<close> is the id of the
  player at the top of the item's parent chain, if there is one.
\<close>

record Item =
  itemRef :: nat
  getID :: u16
  getSlotPosition :: "SlotPositionBits set"
  getWeaponType :: WeaponType_t
  isPickupable :: bool
  isStackable :: bool
  getItemCount :: u16
  isContainer :: bool
  getWeight :: u32
  getBaseWeight :: u32
  topParent :: "u32 option"

datatype ReturnValue =
    RETURNVALUE_NOERROR | RETURNVALUE_NOTPOSSIBLE | RETURNVALUE_NOTENOUGHROOM
  | RETURNVALUE_NOTENOUGHCAPACITY | RETURNVALUE_CANNOTPICKUP | RETURNVALUE_CANNOTBEDRESSED
  | RETURNVALUE_PUTTHISOBJECTINYOURHAND | RETURNVALUE_PUTTHISOBJECTINBOTHHANDS
  | RETURNVALUE_BOTHHANDSNEEDTOBEFREE | RETURNVALUE_DROPTWOHANDEDITEM
  | RETURNVALUE_CANONLYUSEONESHIELD | RETURNVALUE_CANONLYUSEONEWEAPON | RETURNVALUE_NEEDEXCHANGE

subsubsection \<open>The player\<close>

text \<open>
  The fields of \<open>Player\<close> (and of its base \<open>Creature\<close>) that the embedded functions
  read or write. Health, mana and their maxima are 64-bit in the source and are
  modelled by integers; no embedded function relies on their wrap-around.
\<close>

record player =
  pid :: u32 \<comment> \<open>creature id; \<open>other == this\<close> compares ids\<close>
  guid :: u32
  pname :: string
  playerFlags :: "PlayerFlag set" \<comment> \<open>the flags of the player's group\<close>
  messages :: "(MessageClasses \<times> piece list) list" \<comment> \<open>\<open>sendTextMessage\<close> calls, oldest first\<close>
  position :: Position
  loginPosition :: Position
  operatingSystem :: OperatingSystem_t
  storageMap :: "u32 \<rightharpoonup> i32"
  outfits :: "(i32 \<times> i32) list" \<comment> \<open>arguments of \<open>outfits.emplace_back\<close>\<close>
  familiars :: "i32 list" \<comment> \<open>arguments of \<open>familiars.emplace_back\<close>\<close>
  VIPList :: "u32 fset"
  maxVipEntries :: nat \<comment> \<open>\<open>group->maxVipEntries\<close>\<close>
  premiumDays :: int
  skull :: Skulls_t
  skullTicks :: i64
  unjustifiedKills :: "Kill list"
  attackedSet :: "u32 fset"
  pzLocked :: bool
  wheelOfDestinyCreaturesNearby :: u16
  wheelOfDestinyMajorStats :: "WheelOfDestinyMajor_t \<Rightarrow> int"
  wheelOfDestinyOnThinkTimers :: "WheelOfDestinyOnThink_t \<Rightarrow> int"
  vocation :: Vocation
  skills :: "skills_t \<Rightarrow> Skill"
  magLevel :: u32
  manaSpent :: u64
  magLevelPercent :: rat
  level :: u32
  experience :: u64
  levelPercent :: rat
  health :: int
  healthMax :: int
  mana :: int
  manaMax :: int
  capacity :: u32
  bonusCapacity :: u32
  inventoryWeight :: u32
  inventory :: "slots_t \<Rightarrow> Item option"
  skillLoss :: bool
  damageMap :: "(u32 \<times> CountBlock_t) list" \<comment> \<open>in the order of iteration\<close>
  blessings :: "nat \<Rightarrow> u8"
  charmRuneBless :: u16
  conditions :: "Condition list"

text \<open>The configuration options read by the embedded functions.\<close>

record config =
  CLASSIC_EQUIPMENT_SLOTS :: bool
  FREE_PREMIUM :: bool
  DAY_KILLS_TO_RED :: i32
  WEEK_KILLS_TO_RED :: i32
  MONTH_KILLS_TO_RED :: i32
  RED_SKULL_DURATION :: i32
  BLACK_SKULL_DURATION :: i32
  DEATH_LOSE_PERCENT :: i32

text \<open>
  The process-wide collaborators of the progression and death code: the experience
  table \<open>getExpForLevel\<close>, the vocation registry, the lookup of online players and of
  monster types, and the hooks of the event bus and of the move events. A hook receives the amount it may
  rewrite through its reference parameter and returns the rewritten amount.
\<close>

record world =
  getExpForLevel :: "u32 \<Rightarrow> u64"
  VOCATION_NONE :: u16
  noneVocation :: Vocation \<comment> \<open>\<open>g_vocations.getVocation(VOCATION_NONE)\<close>\<close>
  getPromotedVocation :: "u16 \<Rightarrow> u16"
  getPlayerByID :: "u32 \<Rightarrow> player option"
  getMonsterRaceId :: "string \<Rightarrow> u16 option" \<comment> \<open>\<open>getMonsterType(name)->info.raceid\<close>\<close>
  eventPlayerOnGainSkillTries :: "player \<Rightarrow> skills_t \<Rightarrow> u64 \<Rightarrow> u64"
  eventPlayerOnGainExperience :: "player \<Rightarrow> creature option \<Rightarrow> u64 \<Rightarrow> u64"
  eventPlayerOnLoseExperience :: "player \<Rightarrow> u64 \<Rightarrow> u64"
  onPlayerEquip :: "player \<Rightarrow> Item \<Rightarrow> slot_index \<Rightarrow> bool"

definition hasFlag :: "player \<Rightarrow> PlayerFlag \<Rightarrow> bool" where
  "hasFlag p f = (f \<in> playerFlags p)"

definition sendTextMessage :: "MessageClasses \<Rightarrow> piece list \<Rightarrow> player \<Rightarrow> player" where
  "sendTextMessage c s p = p\<lparr>messages := messages p @ [(c, s)]\<rparr>"

subsection \<open>Storage values\<close>

text \<open>
  \<open>getStorageValue\<close> returns the success flag together with the value written
  through the reference parameter.
\<close>

definition getStorageValue :: "player \<Rightarrow> u32 \<Rightarrow> bool \<times> i32" where
  "getStorageValue p key =
     (case storageMap p key of
        None \<Rightarrow> (False, - 1)
      | Some v \<Rightarrow> (True, v))"

text \<open>
  The tail of \<open>addStorageValue\<close>, reached by keys outside the reserved block and by
  keys of the mounts range. The call of the storage-update event (skipped at login)
  only informs the scripting layer.
\<close>

definition storeValue :: "player \<Rightarrow> u32 \<Rightarrow> i32 \<Rightarrow> player" where
  "storeValue p key v =
     (if v \<noteq> - 1 then p\<lparr>storageMap := (storageMap p)(key \<mapsto> v)\<rparr>
      else p\<lparr>storageMap := (storageMap p)(key := None)\<rparr>)"

definition addStorageValue :: "keyranges \<Rightarrow> player \<Rightarrow> u32 \<Rightarrow> i32 \<Rightarrow> player" where
  "addStorageValue inr p key v =
     (if inr RESERVED_RANGE key then
        (if inr OUTFITS_RANGE key then
           p\<lparr>outfits := outfits p @ [(signed_drop_bit 16 v, v AND 0xFF)]\<rparr>
         else if inr MOUNTS_RANGE key then storeValue p key v
         else if inr FAMILIARS_RANGE key then
           p\<lparr>familiars := familiars p @ [signed_drop_bit 16 v]\<rparr>
         else p)
      else storeValue p key v)"

subsection \<open>VIP list\<close>







subsection \<open>Unjustified kills and skulls\<close>

definition getSkull :: "player \<Rightarrow> Skulls_t" where
  "getSkull p = (if hasFlag p PlayerFlag_NotGainInFight then SKULL_NONE else skull p)"

text \<open>
  The counting loop of \<open>addUnjustifiedDead\<close>. The three counters are \<open>uint8_t\<close>;
  \<open>now\<close> is the value of \<open>time(nullptr)\<close>.
\<close>

fun countKills :: "int \<Rightarrow> Kill list \<Rightarrow> u8 \<times> u8 \<times> u8 \<Rightarrow> u8 \<times> u8 \<times> u8" where
  "countKills now [] acc = acc"
| "countKills now (kill # kills) (dayKills, weekKills, monthKills) =
     (let diff = now - kill_time kill in
      countKills now kills
        (if diff \<le> 4 * 60 * 60 then dayKills + 1 else dayKills,
         if diff \<le> 7 * 24 * 60 * 60 then weekKills + 1 else weekKills,
         if diff \<le> 30 * 24 * 60 * 60 then monthKills + 1 else monthKills))"

definition addUnjustifiedDead ::
  "config \<Rightarrow> WorldType_t \<Rightarrow> int \<Rightarrow> player \<Rightarrow> player \<Rightarrow> player" where
  "addUnjustifiedDead cfg worldType now p attacked =
     (if hasFlag p PlayerFlag_NotGainInFight \<or> pid attacked = pid p
         \<or> worldType = WORLD_TYPE_PVP_ENFORCED then p
      else
        let p1 = sendTextMessage MESSAGE_EVENT_ADVANCE
                   [Str ''Warning! The murder of '', Str (pname attacked),
                    Str '' was not justified.''] p;
            p2 = p1\<lparr>unjustifiedKills := unjustifiedKills p1 @
                       [\<lparr>kill_target = guid attacked, kill_time = now, unavenged = True\<rparr>]\<rparr>;
            (dayKills, weekKills, monthKills) = countKills now (unjustifiedKills p2) (0, 0, 0)
        in
          if getSkull p2 \<noteq> SKULL_BLACK then
            (if 2 * sint (DAY_KILLS_TO_RED cfg) \<le> uint dayKills
                \<or> 2 * sint (WEEK_KILLS_TO_RED cfg) \<le> uint weekKills
                \<or> 2 * sint (MONTH_KILLS_TO_RED cfg) \<le> uint monthKills then
               p2\<lparr>skull := SKULL_BLACK,
                  skullTicks := scast (BLACK_SKULL_DURATION cfg) * 24 * 60 * 60 * 1000\<rparr>
             else if sint (DAY_KILLS_TO_RED cfg) \<le> uint dayKills
                \<or> sint (WEEK_KILLS_TO_RED cfg) \<le> uint weekKills
                \<or> sint (MONTH_KILLS_TO_RED cfg) \<le> uint monthKills then
               p2\<lparr>skull := SKULL_RED,
                  skullTicks := scast (RED_SKULL_DURATION cfg) * 24 * 60 * 60 * 1000\<rparr>
             else p2)
          else p2)"

subsection \<open>Wheel of Destiny: Battle Instinct\<close>









subsection \<open>Percent towards the next level\<close>

text \<open>\<open>round\<close> of the C library rounds halves away from zero.\<close>

definition c_round :: "rat \<Rightarrow> int" where
  "c_round x = (if 0 \<le> x then \<lfloor>x + 1 / 2\<rfloor> else \<lceil>x - 1 / 2\<rceil>)"

text \<open>The conversion of a \<open>double\<close> to an integer type drops the fraction.\<close>

definition c_trunc :: "rat \<Rightarrow> int" where
  "c_trunc x = (if 0 \<le> x then \<lfloor>x\<rfloor> else \<lceil>x\<rceil>)"

definition getPercentLevel :: "u64 \<Rightarrow> u64 \<Rightarrow> rat" where
  "getPercentLevel count nextLevelCount =
     (if nextLevelCount = 0 then 0
      else
        let result =
              of_int (c_round (of_int (uint count) * 100 / of_int (uint nextLevelCount) * 100)) / 100
        in if 100 < result then 0 else result)"

subsection \<open>Skill and magic level advancement\<close>

text \<open>
  The \<open>while\<close> loop of \<open>addSkillAdvance\<close>. It returns the player together with the
  locals \<open>count\<close>, \<open>currReqTries\<close>, \<open>nextReqTries\<close> and \<open>sendUpdateSkills\<close>.
\<close>

function skillAdvanceLoop ::
  "skills_t \<Rightarrow> player \<Rightarrow> u64 \<Rightarrow> u64 \<Rightarrow> u64 \<Rightarrow> bool \<Rightarrow> player \<times> u64 \<times> u64 \<times> u64 \<times> bool" where
  "skillAdvanceLoop skill p count currReqTries nextReqTries sendUpdateSkills =
     (if nextReqTries \<le> tries (skills p skill) + count then
        (let count1 = count - (nextReqTries - tries (skills p skill));
             sk = (skills p skill)\<lparr>tries := 0, skill_level := skill_level (skills p skill) + 1,
                                     percent := 0\<rparr>;
             p1 = sendTextMessage MESSAGE_EVENT_ADVANCE
                    [Str ''You advanced to '', SkillName skill, Str '' level '',
                     Num (uint (skill_level sk)), Str ''.'']
                    (p\<lparr>skills := (skills p)(skill := sk)\<rparr>);
             nextReqTries1 = getReqSkillTries (vocation p1) skill (skill_level sk + 1)
         in
           if nextReqTries1 \<le> nextReqTries then (p1, 0, nextReqTries, nextReqTries1, True)
           else skillAdvanceLoop skill p1 count1 nextReqTries nextReqTries1 True)
      else (p, count, currReqTries, nextReqTries, sendUpdateSkills))"
  by pat_completeness auto
termination
proof (relation "measures [\<lambda>(skill, p, count, c, n, u). if tries (skills p skill) = 0 then 0 else 1,
                           \<lambda>(skill, p, count, c, n, u). if n = 0 then 1 else (0::nat),
                           \<lambda>(skill, p, count, c, n, u). unat count]", goal_cases)
  case 1
  show ?case by simp
next
  case (2 skill p count currReqTries nextReqTries sendUpdateSkills count1 sk p1 nextReqTries1)
  have n1: "nextReqTries1 \<noteq> 0" using 2(6) by auto
  have t1: "tries (skills p1 skill) = 0" using 2(3,4) by (simp add: sendTextMessage_def)
  show ?case
  proof (cases "tries (skills p skill) = 0")
    case False
    then show ?thesis using t1 by simp
  next
    case True
    note tz = True
    show ?thesis
    proof (cases "nextReqTries = 0")
      case True
      then show ?thesis using t1 tz n1 by simp
    next
      case False
      have le: "nextReqTries \<le> count" using 2(1) tz by simp
      have "unat (count - nextReqTries) = unat count - unat nextReqTries"
        using le by (rule unat_sub)
      moreover have "0 < unat nextReqTries" using False by (simp add: unat_gt_0)
      moreover have "unat nextReqTries \<le> unat count" using le by (simp add: word_le_nat_alt)
      ultimately have "unat (count - nextReqTries) < unat count" by linarith
      then have "unat count1 < unat count" using 2(2) tz by simp
      then show ?thesis using t1 tz n1 False by simp
    qed
  qed
qed

text \<open>
  \<open>addSkillAdvance\<close>. The local \<open>newPercent\<close> is a \<open>uint32_t\<close>, so the percent is
  cut to its integer part before it is compared and stored.
\<close>

definition addSkillAdvance :: "world \<Rightarrow> player \<Rightarrow> skills_t \<Rightarrow> u64 \<Rightarrow> player" where
  "addSkillAdvance W p skill count =
     (let currReqTries = getReqSkillTries (vocation p) skill (skill_level (skills p skill));
          nextReqTries = getReqSkillTries (vocation p) skill (skill_level (skills p skill) + 1)
      in
        if nextReqTries \<le> currReqTries then p
        else
          let count1 = eventPlayerOnGainSkillTries W p skill count in
          if count1 = 0 then p
          else
            let (p1, count2, currReqTries1, nextReqTries1, sendUpdateSkills) =
                  skillAdvanceLoop skill p count1 currReqTries nextReqTries False;
                p2 = p1\<lparr>skills := (skills p1)
                        (skill := (skills p1 skill)\<lparr>tries := tries (skills p1 skill) + count2\<rparr>)\<rparr>;
                newPercent =
                  (if currReqTries1 < nextReqTries1 then
                     (word_of_int (c_trunc (getPercentLevel (tries (skills p2 skill)) nextReqTries1)) :: u32)
                   else 0)
            in
              if percent (skills p2 skill) \<noteq> of_int (uint newPercent) then
                p2\<lparr>skills := (skills p2)
                     (skill := (skills p2 skill)\<lparr>percent := of_int (uint newPercent)\<rparr>)\<rparr>
              else p2)"

text \<open>
  The \<open>while\<close> loop of \<open>addManaSpent\<close>. When the curve plateaus inside the loop the
  source returns from the whole function: the second component is then \<open>None\<close>;
  otherwise it holds the locals \<open>amount\<close>, \<open>currReqMana\<close>, \<open>nextReqMana\<close> and
  \<open>sendUpdateStats\<close>.
\<close>

function manaSpentLoop ::
  "player \<Rightarrow> u64 \<Rightarrow> u64 \<Rightarrow> u64 \<Rightarrow> bool \<Rightarrow> player \<times> (u64 \<times> u64 \<times> u64 \<times> bool) option" where
  "manaSpentLoop p amount currReqMana nextReqMana sendUpdateStats =
     (if nextReqMana \<le> manaSpent p + amount then
        (let amount1 = amount - (nextReqMana - manaSpent p);
             p1 = sendTextMessage MESSAGE_EVENT_ADVANCE
                    [Str ''You advanced to magic level '', Num (uint (magLevel p + 1)), Str ''.'']
                    (p\<lparr>magLevel := magLevel p + 1, manaSpent := 0\<rparr>);
             nextReqMana1 = getReqMana (vocation p1) (magLevel p1 + 1)
         in
           if nextReqMana1 \<le> nextReqMana then (p1, None)
           else manaSpentLoop p1 amount1 nextReqMana nextReqMana1 True)
      else (p, Some (amount, currReqMana, nextReqMana, sendUpdateStats)))"
  by pat_completeness auto
termination
proof (relation "measures [\<lambda>(p, amount, c, n, u). if manaSpent p = 0 then 0 else 1,
                           \<lambda>(p, amount, c, n, u). if n = 0 then 1 else (0::nat),
                           \<lambda>(p, amount, c, n, u). unat amount]", goal_cases)
  case 1
  show ?case by simp
next
  case (2 p amount currReqMana nextReqMana sendUpdateStats amount1 p1 nextReqMana1)
  have n1: "nextReqMana1 \<noteq> 0" using 2(5) by auto
  have t1: "manaSpent p1 = 0" using 2(3) by (simp add: sendTextMessage_def)
  show ?case
  proof (cases "manaSpent p = 0")
    case False
    then show ?thesis using t1 by simp
  next
    case True
    note tz = True
    show ?thesis
    proof (cases "nextReqMana = 0")
      case True
      then show ?thesis using t1 tz n1 by simp
    next
      case False
      have le: "nextReqMana \<le> amount" using 2(1) tz by simp
      have "unat (amount - nextReqMana) = unat amount - unat nextReqMana"
        using le by (rule unat_sub)
      moreover have "0 < unat nextReqMana" using False by (simp add: unat_gt_0)
      moreover have "unat nextReqMana \<le> unat amount" using le by (simp add: word_le_nat_alt)
      ultimately have "unat (amount - nextReqMana) < unat amount" by linarith
      then have "unat amount1 < unat amount" using 2(2) tz by simp
      then show ?thesis using t1 tz n1 False by simp
    qed
  qed
qed

definition addManaSpent :: "world \<Rightarrow> player \<Rightarrow> u64 \<Rightarrow> player" where
  "addManaSpent W p amount =
     (if hasFlag p PlayerFlag_NotGainMana then p
      else
        let currReqMana = getReqMana (vocation p) (magLevel p);
            nextReqMana = getReqMana (vocation p) (magLevel p + 1)
        in
          if nextReqMana \<le> currReqMana then p
          else
            let amount1 = eventPlayerOnGainSkillTries W p SKILL_MAGLEVEL amount in
            if amount1 = 0 then p
            else
              (case manaSpentLoop p amount1 currReqMana nextReqMana False of
                 (p1, None) \<Rightarrow> p1
               | (p1, Some (amount2, currReqMana1, nextReqMana1, sendUpdateStats)) \<Rightarrow>
                   let p2 = p1\<lparr>manaSpent := manaSpent p1 + amount2\<rparr> in
                   if currReqMana1 < nextReqMana1 then
                     p2\<lparr>magLevelPercent := getPercentLevel (manaSpent p2) nextReqMana1\<rparr>
                   else p2\<lparr>magLevelPercent := 0\<rparr>))"

subsection \<open>Experience\<close>

text \<open>
  The vocation whose gains apply at a level: below level 9 a player with a vocation
  gains and loses as the vocation none does.
\<close>

definition gainVocation :: "world \<Rightarrow> player \<Rightarrow> Vocation" where
  "gainVocation W p =
     (if vocId (vocation p) \<noteq> VOCATION_NONE W \<and> level p \<le> 8 then noneVocation W
      else vocation p)"

text \<open>The body of the \<open>while\<close> loop of \<open>addExperience\<close> up to the update of the locals.\<close>

definition levelUp :: "world \<Rightarrow> player \<Rightarrow> player" where
  "levelUp W p =
     (let p1 = p\<lparr>level := level p + 1\<rparr>;
          g = gainVocation W p1
      in p1\<lparr>healthMax := healthMax p1 + uint (getHPGain g),
             health := health p1 + uint (getHPGain g),
             manaMax := manaMax p1 + uint (getManaGain g),
             mana := mana p1 + uint (getManaGain g),
             capacity := capacity p1 + getCapGain g\<rparr>)"

text \<open>
  The \<open>while\<close> loop of \<open>addExperience\<close>; it returns the player and the locals
  \<open>currLevelExp\<close> and \<open>nextLevelExp\<close>.
\<close>

function levelUpLoop :: "world \<Rightarrow> player \<Rightarrow> u64 \<Rightarrow> u64 \<Rightarrow> player \<times> u64 \<times> u64" where
  "levelUpLoop W p currLevelExp nextLevelExp =
     (if nextLevelExp \<le> experience p then
        (let p1 = levelUp W p;
             nextLevelExp1 = getExpForLevel W (level p1 + 1)
         in
           if nextLevelExp1 \<le> nextLevelExp then (p1, nextLevelExp, nextLevelExp1)
           else levelUpLoop W p1 nextLevelExp nextLevelExp1)
      else (p, currLevelExp, nextLevelExp))"
  by pat_completeness auto
termination
proof (relation "measure (\<lambda>(W, p, c, n). 2 ^ 64 - unat n)", goal_cases)
  case 1
  show ?case by simp
next
  case (2 W p currLevelExp nextLevelExp p1 nextLevelExp1)
  have "unat nextLevelExp < unat nextLevelExp1"
    using 2(4) by (simp add: word_le_nat_alt)
  moreover have "unat nextLevelExp1 < 2 ^ 64"
    using unsigned_less [of nextLevelExp1, where 'a = nat] by simp
  ultimately show ?case by simp
qed

definition expString :: "u64 \<Rightarrow> piece list" where
  "expString exp =
     [Num (uint exp), Str (if exp \<noteq> 1 then '' experience points.'' else '' experience point.'')]"

definition updateLevelPercent :: "u64 \<Rightarrow> u64 \<Rightarrow> player \<Rightarrow> player" where
  "updateLevelPercent currLevelExp nextLevelExp p =
     (if currLevelExp < nextLevelExp then
        p\<lparr>levelPercent := getPercentLevel (experience p - currLevelExp) (nextLevelExp - currLevelExp)\<rparr>
      else p\<lparr>levelPercent := 0\<rparr>)"

text \<open>
  \<open>addExperience\<close>. The recomputation of the base speed and the notifications of the
  game, the party and the advance event follow the refill of health and mana; they
  are defined outside player.cpp and are left out.
\<close>

definition addExperience :: "world \<Rightarrow> player \<Rightarrow> creature option \<Rightarrow> u64 \<Rightarrow> bool \<Rightarrow> player" where
  "addExperience W p source exp sendText =
     (let currLevelExp = getExpForLevel W (level p);
          nextLevelExp = getExpForLevel W (level p + 1)
      in
        if nextLevelExp \<le> currLevelExp then p\<lparr>levelPercent := 0\<rparr>
        else
          let exp1 = eventPlayerOnGainExperience W p source exp in
          if exp1 = 0 then p
          else
            let p1 = p\<lparr>experience := experience p + exp1\<rparr>;
                p2 = (if sendText then
                        sendTextMessage MESSAGE_EXPERIENCE (Str ''You gained '' # expString exp1) p1
                      else p1);
                prevLevel = level p2;
                (p3, currLevelExp1, nextLevelExp1) = levelUpLoop W p2 currLevelExp nextLevelExp;
                p4 = (if prevLevel \<noteq> level p3 then
                        sendTextMessage MESSAGE_EVENT_ADVANCE
                          [Str ''You advanced from Level '', Num (uint prevLevel),
                           Str '' to Level '', Num (uint (level p3)), Str ''.'']
                          (p3\<lparr>health := healthMax p3, mana := manaMax p3\<rparr>)
                      else p3)
            in updateLevelPercent currLevelExp1 nextLevelExp1 p4)"

text \<open>The body of the \<open>while\<close> loop of \<open>removeExperience\<close> up to the update of the local.\<close>

definition levelDown :: "world \<Rightarrow> player \<Rightarrow> player" where
  "levelDown W p =
     (let p1 = p\<lparr>level := level p - 1\<rparr>;
          g = gainVocation W p1
      in p1\<lparr>healthMax := max 0 (healthMax p1 - uint (getHPGain g)),
             manaMax := max 0 (manaMax p1 - uint (getManaGain g)),
             capacity := word_of_int (max 0 (sint (capacity p1 - getCapGain g)))\<rparr>)"

text \<open>The \<open>while\<close> loop of \<open>removeExperience\<close>; it returns the player and \<open>currLevelExp\<close>.\<close>

function levelDownLoop :: "world \<Rightarrow> player \<Rightarrow> u64 \<Rightarrow> player \<times> u64" where
  "levelDownLoop W p currLevelExp =
     (if 1 < level p \<and> experience p < currLevelExp then
        (let p1 = levelDown W p
         in levelDownLoop W p1 (getExpForLevel W (level p1)))
      else (p, currLevelExp))"
  by pat_completeness auto
termination
proof (relation "measure (\<lambda>(W, p, c). unat (level p))", goal_cases)
  case 1
  show ?case by simp
next
  case (2 W p currLevelExp p1)
  have "1 < level p" using 2(1) by simp
  then have "1 \<le> level p" by (rule less_imp_le)
  then have "unat (level p - 1) = unat (level p) - unat (1 :: u32)" by (rule unat_sub)
  moreover have "0 < unat (level p)" using \<open>1 < level p\<close> by (simp add: word_less_nat_alt)
  ultimately have "unat (level p - 1) < unat (level p)" by simp
  then show ?case using 2(2) by (simp add: levelDown_def Let_def)
qed

definition removeExperience :: "world \<Rightarrow> player \<Rightarrow> u64 \<Rightarrow> bool \<Rightarrow> player" where
  "removeExperience W p exp sendText =
     (if experience p = 0 \<or> exp = 0 then p
      else
        let exp1 = eventPlayerOnLoseExperience W p exp in
        if exp1 = 0 then p
        else
          let lostExp = experience p;
              p1 = p\<lparr>experience := word_of_int (max 0 (sint (experience p - exp1)))\<rparr>;
              p2 = (if sendText then
                      sendTextMessage MESSAGE_EXPERIENCE
                        (Str ''You lost '' # expString (lostExp - experience p1)) p1
                    else p1);
              oldLevel = level p2;
              (p3, currLevelExp) = levelDownLoop W p2 (getExpForLevel W (level p2));
              p4 = (if oldLevel \<noteq> level p3 then
                      sendTextMessage MESSAGE_EVENT_ADVANCE
                        [Str ''You were downgraded from Level '', Num (uint oldLevel),
                         Str '' to Level '', Num (uint (level p3)), Str ''.'']
                        (p3\<lparr>health := healthMax p3, mana := manaMax p3\<rparr>)
                    else p3)
          in updateLevelPercent currLevelExp (getExpForLevel W (level p4 + 1)) p4)"

subsection \<open>Death\<close>

definition lastHitIsPlayer :: "creature option \<Rightarrow> bool" where
  "lastHitIsPlayer lastHitCreature =
     (case lastHitCreature of
        None \<Rightarrow> False
      | Some c \<Rightarrow>
          if isPlayer c then True
          else (case getMaster c of None \<Rightarrow> False | Some m \<Rightarrow> isPlayer m))"

text \<open>
  The loop over the damage map: damage dealt within the last five minutes is summed
  per kind of dealer, and the levels of the dealing players are summed in a
  \<open>uint32_t\<close>. \<open>now\<close> is the value of \<open>OTSYS_TIME()\<close>.
\<close>

fun sumDamage ::
  "world \<Rightarrow> int \<Rightarrow> (u32 \<times> CountBlock_t) list \<Rightarrow> int \<times> int \<times> u32 \<Rightarrow> int \<times> int \<times> u32" where
  "sumDamage W now [] acc = acc"
| "sumDamage W now ((attackerId, cb) # rest) (playerDmg, othersDmg, sumLevels) =
     (if now - ticks cb \<le> 5 * 60 * 1000 then
        (case getPlayerByID W attackerId of
           Some damageDealer \<Rightarrow>
             sumDamage W now rest (playerDmg + total cb, othersDmg, sumLevels + level damageDealer)
         | None \<Rightarrow> sumDamage W now rest (playerDmg, othersDmg + total cb, sumLevels))
      else sumDamage W now rest (playerDmg, othersDmg, sumLevels))"

text \<open>
  The test for a PvP death. The quotient is a \<open>double\<close>; with a zero denominator it
  is an infinity with the sign of \<open>playerDmg\<close>, which is written out.
\<close>

definition isPvpDeath :: "creature option \<Rightarrow> int \<Rightarrow> int \<Rightarrow> bool" where
  "isPvpDeath lastHitCreature playerDmg othersDmg =
     (if 0 < playerDmg \<or> 0 < othersDmg then
        lastHitIsPlayer lastHitCreature \<or>
        (if playerDmg + othersDmg = 0 then 0 < playerDmg
         else 1 / 20 \<le> (of_int playerDmg / of_int (playerDmg + othersDmg) :: rat))
      else False)"

text \<open>The value of the local \<open>unfairFightReduction\<close>, a \<open>uint8_t\<close>.\<close>

definition unfairFightReduction :: "bool \<Rightarrow> u32 \<Rightarrow> u32 \<Rightarrow> u8" where
  "unfairFightReduction pvpDeath sumLevels lvl =
     (if pvpDeath \<and> lvl < sumLevels then
        (let reduce = (of_int (uint lvl) / of_int (uint sumLevels) :: rat)
         in max 20 (word_of_int \<lfloor>reduce * 100 + 1 / 2\<rfloor>))
      else 100)"

text \<open>
  Modelled from the spec: \<open>hasBlessing\<close> and \<open>removeBlessing\<close> are defined outside
  player.cpp. The spec speaks of blessings that are held ("each blessing subtracts 8
  relative") and removed at death; a blessing is held when its counter is not zero,
  and removing subtracts from the counter of a held blessing.
\<close>

definition hasBlessing :: "player \<Rightarrow> nat \<Rightarrow> bool" where
  "hasBlessing p i = (blessings p i \<noteq> 0)"

definition removeBlessing :: "nat \<Rightarrow> u8 \<Rightarrow> player \<Rightarrow> player" where
  "removeBlessing i c p =
     (if blessings p i = 0 then p
      else p\<lparr>blessings := (blessings p)(i := blessings p i - c)\<rparr>)"

definition isPromoted :: "world \<Rightarrow> player \<Rightarrow> bool" where
  "isPromoted W p =
     (let promotedVocation = getPromotedVocation W (vocId (vocation p))
      in promotedVocation = VOCATION_NONE W \<and> vocId (vocation p) \<noteq> promotedVocation)"

text \<open>
  \<open>getLostPercent\<close>. At level 24 and above the loss divides by the experience; with
  no experience the quotient is not a finite \<open>double\<close>, and the result is \<open>None\<close>.
\<close>

definition getLostPercent :: "config \<Rightarrow> world \<Rightarrow> player \<Rightarrow> rat option" where
  "getLostPercent cfg W p =
     (let maxBlessing =
            (if operatingSystem p = CLIENTOS_NEW_WINDOWS \<or> operatingSystem p = CLIENTOS_NEW_MAC
             then 8 else 6 :: nat);
          blessingCount = int (length (filter (hasBlessing p) [2 ..< Suc maxBlessing]));
          deathLosePercent = sint (DEATH_LOSE_PERCENT cfg)
      in
        if deathLosePercent \<noteq> - 1 then
          Some (of_int (max 0 ((if isPromoted W p then deathLosePercent - 3 else deathLosePercent)
                                - blessingCount)) / 100)
        else if 24 \<le> level p \<and> experience p = 0 then None
        else
          let lossPercent =
                (if 24 \<le> level p then
                   (let tmpLevel = of_int (uint (level p)) + levelPercent p / 100
                    in (tmpLevel + 50) * 50 * (tmpLevel * tmpLevel - 5 * tmpLevel + 8)
                         / of_int (uint (experience p)))
                 else 5);
              percentReduction = (if isPromoted W p then 30 else 0) + of_int blessingCount * 8
          in Some (lossPercent * (1 - percentReduction / 100) / 100))"

text \<open>The magic level loss: the \<open>while\<close> loop that peels off magic levels.\<close>

function magLossLoop :: "player \<Rightarrow> u64 \<Rightarrow> player \<times> u64" where
  "magLossLoop p lostMana =
     (if manaSpent p < lostMana \<and> 0 < magLevel p then
        magLossLoop (p\<lparr>manaSpent := getReqMana (vocation p) (magLevel p),
                       magLevel := magLevel p - 1\<rparr>)
                    (lostMana - manaSpent p)
      else (p, lostMana))"
  by pat_completeness auto
termination
proof (relation "measure (\<lambda>(p, l). unat (magLevel p))", goal_cases)
  case 1
  show ?case by simp
next
  case (2 p lostMana)
  have pos: "0 < magLevel p" using 2 by simp
  then have "1 \<le> magLevel p" by (simp add: word_less_nat_alt word_le_nat_alt)
  then have "unat (magLevel p - 1) = unat (magLevel p) - unat (1 :: u32)" by (rule unat_sub)
  moreover have "0 < unat (magLevel p)" using pos by (simp add: word_less_nat_alt)
  ultimately have "unat (magLevel p - 1) < unat (magLevel p)" by simp
  then show ?case by simp
qed

definition deathManaLoss :: "rat \<Rightarrow> player \<Rightarrow> player" where
  "deathManaLoss deathLossPercent p =
     (let sumMana = (sum_list (map (\<lambda>i. getReqMana (vocation p) (of_nat i))
                                   [1 ..< Suc (unat (magLevel p))]) + manaSpent p :: u64);
          lostMana = (word_of_int (c_trunc (of_int (uint sumMana) * deathLossPercent)) :: u64);
          (p1, lostMana1) = magLossLoop p lostMana;
          p2 = p1\<lparr>manaSpent := manaSpent p1 - lostMana1\<rparr>;
          nextReqMana = getReqMana (vocation p2) (magLevel p2 + 1)
      in
        if getReqMana (vocation p2) (magLevel p2) < nextReqMana then
          p2\<lparr>magLevelPercent := getPercentLevel (manaSpent p2) nextReqMana\<rparr>
        else p2\<lparr>magLevelPercent := 0\<rparr>)"

text \<open>
  The skill loss of one skill: the inner \<open>while\<close> loop works on the skill entry and
  the \<open>uint32_t\<close> local \<open>lostSkillTries\<close>.
\<close>

function skillLossLoop :: "(u16 \<Rightarrow> u64) \<Rightarrow> Skill \<Rightarrow> u32 \<Rightarrow> Skill \<times> u32" where
  "skillLossLoop req sk lostSkillTries =
     (if tries sk < ucast lostSkillTries then
        (let lostSkillTries1 = (ucast ((ucast lostSkillTries :: u64) - tries sk) :: u32)
         in
           if skill_level sk \<le> 10 then (sk\<lparr>tries := 0, skill_level := 10\<rparr>, 0)
           else skillLossLoop req (sk\<lparr>tries := req (skill_level sk),
                                       skill_level := skill_level sk - 1\<rparr>) lostSkillTries1)
      else (sk, lostSkillTries))"
  by pat_completeness auto
termination
proof (relation "measure (\<lambda>(req, sk, l). unat (skill_level sk))", goal_cases)
  case 1
  show ?case by simp
next
  case (2 req sk lostSkillTries lostSkillTries1)
  have "10 < skill_level sk" using 2(3) by simp
  then have pos: "0 < unat (skill_level sk)" by (simp add: word_less_nat_alt)
  then have "1 \<le> skill_level sk" by (simp add: word_le_nat_alt)
  then have "unat (skill_level sk - 1) = unat (skill_level sk) - unat (1 :: u16)" by (rule unat_sub)
  then have "unat (skill_level sk - 1) < unat (skill_level sk)" using pos by simp
  then show ?case by simp
qed

definition deathSkillLoss :: "rat \<Rightarrow> skills_t \<Rightarrow> player \<Rightarrow> player" where
  "deathSkillLoss deathLossPercent i p =
     (let sk = skills p i;
          req = getReqSkillTries (vocation p) i;
          sumSkillTries = (sum_list (map (\<lambda>c. req (of_nat c)) [11 ..< Suc (unat (skill_level sk))])
                           + tries sk :: u64);
          lostSkillTries = (word_of_int (c_trunc (of_int (uint sumSkillTries) * deathLossPercent)) :: u32);
          (sk1, lostSkillTries1) = skillLossLoop req sk lostSkillTries;
          sk2 = sk1\<lparr>tries := word_of_int
                   (max 0 (sint (ucast (tries sk1 - ucast lostSkillTries1) :: i32)))\<rparr>;
          sk3 = sk2\<lparr>percent := getPercentLevel (tries sk2) (req (skill_level sk2))\<rparr>
      in p\<lparr>skills := (skills p)(i := sk3)\<rparr>)"

text \<open>The level loss: here the gains of the player's own vocation are taken back.\<close>

function deathLevelLoop :: "world \<Rightarrow> player \<Rightarrow> player" where
  "deathLevelLoop W p =
     (if 1 < level p \<and> experience p < getExpForLevel W (level p) then
        deathLevelLoop W
          (p\<lparr>level := level p - 1,
             healthMax := max 0 (healthMax p - uint (getHPGain (vocation p))),
             manaMax := max 0 (manaMax p - uint (getManaGain (vocation p))),
             capacity := word_of_int (max 0 (sint (capacity p - getCapGain (vocation p))))\<rparr>)
      else p)"
  by pat_completeness auto
termination
proof (relation "measure (\<lambda>(W, p). unat (level p))", goal_cases)
  case 1
  show ?case by simp
next
  case (2 W p)
  have "1 < level p" using 2 by simp
  then have "1 \<le> level p" by (rule less_imp_le)
  then have "unat (level p - 1) = unat (level p) - unat (1 :: u32)" by (rule unat_sub)
  moreover have "0 < unat (level p)" using \<open>1 < level p\<close> by (simp add: word_less_nat_alt)
  ultimately have "unat (level p - 1) < unat (level p)" by simp
  then show ?case by simp
qed

definition deathLevelLoss :: "world \<Rightarrow> rat \<Rightarrow> player \<Rightarrow> player" where
  "deathLevelLoss W deathLossPercent p =
     (let expLoss = eventPlayerOnLoseExperience W p
                      (word_of_int (c_trunc (of_int (uint (experience p)) * deathLossPercent)))
      in
        if expLoss \<noteq> 0 then
          (let oldLevel = level p;
               p1 = (if vocId (vocation p) = VOCATION_NONE W \<or> 7 < level p then
                       p\<lparr>experience := experience p - expLoss\<rparr>
                     else p);
               p2 = deathLevelLoop W p1;
               p3 = (if oldLevel \<noteq> level p2 then
                       sendTextMessage MESSAGE_EVENT_ADVANCE
                         [Str ''You were downgraded from Level '', Num (uint oldLevel),
                          Str '' to Level '', Num (uint (level p2)), Str ''.''] p2
                     else p2)
           in updateLevelPercent (getExpForLevel W (level p3)) (getExpForLevel W (level p3 + 1)) p3)
        else p)"

definition deathBlessLoss :: "bool \<Rightarrow> player \<Rightarrow> player" where
  "deathBlessLoss pvpDeath p =
     (if pvpDeath \<and> hasBlessing p 1 then removeBlessing 1 1 p
      else fold (\<lambda>i. removeBlessing i 1) [2 ..< Suc 8] p)"

text \<open>
  \<open>onEndCondition\<close>, without the part inherited from \<open>Creature\<close> and the calls that
  only notify the party and the client.
\<close>

definition onEndCondition :: "ConditionType_t \<Rightarrow> player \<Rightarrow> player" where
  "onEndCondition t p =
     (if t = CONDITION_INFIGHT then
        (let p1 = p\<lparr>pzLocked := False, attackedSet := {||}\<rparr>
         in if getSkull p1 \<noteq> SKULL_RED \<and> getSkull p1 \<noteq> SKULL_BLACK then p1\<lparr>skull := SKULL_NONE\<rparr>
            else p1)
      else p)"

text \<open>
  The loop that ends the persistent conditions. \<open>Condition::endCondition\<close> is defined
  outside player.cpp; its effect on the player is not modelled.
\<close>

definition endPersistentConditions :: "player \<Rightarrow> player" where
  "endPersistentConditions p =
     fold (\<lambda>c. onEndCondition (ctype c)) (filter isPersistent (conditions p))
       (p\<lparr>conditions := filter (\<lambda>c. \<not> isPersistent c) (conditions p)\<rparr>)"

text \<open>The test for the charm rune bless: the last hit came from a monster of the blessed race.\<close>

definition charmBlessApplies :: "world \<Rightarrow> player \<Rightarrow> creature option \<Rightarrow> bool" where
  "charmBlessApplies W p lastHitCreature =
     (case lastHitCreature of
        None \<Rightarrow> False
      | Some c \<Rightarrow>
          isMonster c \<and> charmRuneBless p \<noteq> 0
          \<and> getMonsterRaceId W (cname c) = Some (charmRuneBless p))"

text \<open>The value of the local \<open>deathLossPercent\<close>.\<close>

definition deathLossPercentOf ::
  "world \<Rightarrow> player \<Rightarrow> creature option \<Rightarrow> rat \<Rightarrow> u8 \<Rightarrow> rat" where
  "deathLossPercentOf W p lastHitCreature lostPercent reduction =
     (let deathLossPercent = lostPercent * (of_int (uint reduction) / 100)
      in
        if charmBlessApplies W p lastHitCreature then deathLossPercent * 90 / 100
        else deathLossPercent)"

definition deathVitals :: "player \<Rightarrow> player" where
  "deathVitals p =
     (if getSkull p = SKULL_BLACK then p\<lparr>health := 40, mana := 0\<rparr>
      else p\<lparr>health := healthMax p, mana := manaMax p\<rparr>)"

text \<open>
  \<open>death\<close>: the assignment of the login position followed, for a player whose
  \<open>skillLoss\<close> flag is set, by the body of \<open>if (skillLoss)\<close>. The outcome is
  \<open>LossNotFinite\<close> when \<open>getLostPercent\<close> has no finite value. The branch for an
  unset flag loses no experience; it hands over to \<open>onThink\<close> and the game, is not
  embedded, and has the outcome \<open>WithoutSkillLoss\<close>.
\<close>

datatype death_outcome = Died player | LossNotFinite | WithoutSkillLoss

definition death ::
  "config \<Rightarrow> world \<Rightarrow> int \<Rightarrow> Position \<Rightarrow> creature option \<Rightarrow> player \<Rightarrow> death_outcome" where
  "death cfg W now templePosition lastHitCreature p0 =
     (let p = p0\<lparr>loginPosition := templePosition\<rparr> in
      if skillLoss p then
        (let (playerDmg, othersDmg, sumLevels) = sumDamage W now (damageMap p) (0, 0, 0);
             pvpDeath = isPvpDeath lastHitCreature playerDmg othersDmg;
             reduction = unfairFightReduction pvpDeath sumLevels (level p)
         in
           case getLostPercent cfg W p of
             None \<Rightarrow> LossNotFinite
           | Some lostPercent \<Rightarrow>
               let deathLossPercent = deathLossPercentOf W p lastHitCreature lostPercent reduction;
                   p1 = deathManaLoss deathLossPercent p;
                   p2 = fold (deathSkillLoss deathLossPercent) SKILL_FIRST_TO_LAST p1;
                   p3 = deathLevelLoss W deathLossPercent p2;
                   p4 = deathBlessLoss pvpDeath p3;
                   p5 = deathVitals p4
               in Died (endPersistentConditions p5))
      else WithoutSkillLoss)"

subsection \<open>Placement into the equipment slots\<close>

text \<open>
  Modelled from the spec: \<open>getFreeCapacity\<close> is defined outside player.cpp. The spec
  gives \<open>freeCapacity = capacity + bonusCapacity - weight(inventory)\<close>.
\<close>

definition getFreeCapacity :: "player \<Rightarrow> int" where
  "getFreeCapacity p = uint (capacity p) + uint (bonusCapacity p) - uint (inventoryWeight p)"

definition hasCapacity :: "player \<Rightarrow> Item \<Rightarrow> u32 \<Rightarrow> bool" where
  "hasCapacity p item count =
     (if hasFlag p PlayerFlag_CannotPickupItem then False
      else if hasFlag p PlayerFlag_HasInfiniteCapacity \<or> topParent item = Some (pid p) then True
      else
        let itemWeight = (if isContainer item then getWeight item else getBaseWeight item);
            itemWeight1 = (if isStackable item then itemWeight * count else itemWeight)
        in uint itemWeight1 \<le> getFreeCapacity p)"

definition getInventoryItem :: "player \<Rightarrow> slots_t \<Rightarrow> Item option" where
  "getInventoryItem p slot = (if slot = CONST_SLOT_WHEREEVER then None else inventory p slot)"

text \<open>The value of \<open>ret\<close> before the \<open>switch\<close> on the index.\<close>

definition initialRet :: "config \<Rightarrow> SlotPositionBits set \<Rightarrow> ReturnValue" where
  "initialRet cfg slotPosition =
     (if SLOTP_HEAD \<in> slotPosition \<or> SLOTP_NECKLACE \<in> slotPosition
         \<or> SLOTP_BACKPACK \<in> slotPosition \<or> SLOTP_ARMOR \<in> slotPosition
         \<or> SLOTP_LEGS \<in> slotPosition \<or> SLOTP_FEET \<in> slotPosition
         \<or> SLOTP_RING \<in> slotPosition then RETURNVALUE_CANNOTBEDRESSED
      else if SLOTP_TWO_HAND \<in> slotPosition then RETURNVALUE_PUTTHISOBJECTINBOTHHANDS
      else if SLOTP_RIGHT \<in> slotPosition \<or> SLOTP_LEFT \<in> slotPosition then
        (if \<not> CLASSIC_EQUIPMENT_SLOTS cfg then RETURNVALUE_CANNOTBEDRESSED
         else RETURNVALUE_PUTTHISOBJECTINYOURHAND)
      else RETURNVALUE_NOERROR)"

text \<open>
  The branches of a hand slot under classic equipment slots; \<open>other\<close> is the content
  of the opposite hand. The source has the same text for both hands.
\<close>

definition classicHand :: "Item \<Rightarrow> u32 \<Rightarrow> Item option \<Rightarrow> ReturnValue" where
  "classicHand item count other =
     (if SLOTP_TWO_HAND \<in> getSlotPosition item then
        (case other of
           None \<Rightarrow> RETURNVALUE_NOERROR
         | Some otherItem \<Rightarrow>
             if itemRef otherItem \<noteq> itemRef item then RETURNVALUE_BOTHHANDSNEEDTOBEFREE
             else RETURNVALUE_NOERROR)
      else
        (case other of
           None \<Rightarrow> RETURNVALUE_NOERROR
         | Some otherItem \<Rightarrow>
             let type = getWeaponType item; otherType = getWeaponType otherItem in
             if SLOTP_TWO_HAND \<in> getSlotPosition otherItem then RETURNVALUE_DROPTWOHANDEDITEM
             else if itemRef item = itemRef otherItem \<and> uint count = uint (getItemCount item) then
               RETURNVALUE_NOERROR
             else if otherType = WEAPON_SHIELD \<and> type = WEAPON_SHIELD then
               RETURNVALUE_CANONLYUSEONESHIELD
             else if otherType = WEAPON_NONE \<or> type = WEAPON_NONE
                     \<or> otherType = WEAPON_SHIELD \<or> otherType = WEAPON_AMMO
                     \<or> type = WEAPON_SHIELD \<or> type = WEAPON_AMMO then RETURNVALUE_NOERROR
             else RETURNVALUE_CANONLYUSEONEWEAPON))"

definition rightHand :: "config \<Rightarrow> player \<Rightarrow> Item \<Rightarrow> u32 \<Rightarrow> ReturnValue" where
  "rightHand cfg p item count =
     (if \<not> CLASSIC_EQUIPMENT_SLOTS cfg then
        (if getWeaponType item \<noteq> WEAPON_SHIELD \<and> getWeaponType item \<noteq> WEAPON_QUIVER then
           RETURNVALUE_CANNOTBEDRESSED
         else
           (case inventory p CONST_SLOT_LEFT of
              Some leftItem \<Rightarrow>
                if SLOTP_TWO_HAND \<in> getSlotPosition leftItem \<union> getSlotPosition item then
                  (if getWeaponType item = WEAPON_QUIVER \<and> getWeaponType leftItem = WEAPON_DISTANCE
                   then RETURNVALUE_NOERROR
                   else RETURNVALUE_BOTHHANDSNEEDTOBEFREE)
                else RETURNVALUE_NOERROR
            | None \<Rightarrow> RETURNVALUE_NOERROR))
      else classicHand item count (inventory p CONST_SLOT_LEFT))"

definition leftHand :: "config \<Rightarrow> player \<Rightarrow> Item \<Rightarrow> u32 \<Rightarrow> ReturnValue" where
  "leftHand cfg p item count =
     (if \<not> CLASSIC_EQUIPMENT_SLOTS cfg then
        (let type = getWeaponType item in
         if type = WEAPON_NONE \<or> type = WEAPON_SHIELD \<or> type = WEAPON_AMMO then
           RETURNVALUE_CANNOTBEDRESSED
         else
           (case inventory p CONST_SLOT_RIGHT of
              Some rightItem \<Rightarrow>
                if SLOTP_TWO_HAND \<in> getSlotPosition item then
                  (if type = WEAPON_DISTANCE \<and> getWeaponType rightItem = WEAPON_QUIVER
                   then RETURNVALUE_NOERROR
                   else RETURNVALUE_BOTHHANDSNEEDTOBEFREE)
                else RETURNVALUE_NOERROR
            | None \<Rightarrow> RETURNVALUE_NOERROR))
      else classicHand item count (inventory p CONST_SLOT_RIGHT))"

text \<open>The \<open>switch\<close> on the index: the slot check.\<close>

definition slotCheck :: "config \<Rightarrow> player \<Rightarrow> slot_index \<Rightarrow> Item \<Rightarrow> u32 \<Rightarrow> ReturnValue" where
  "slotCheck cfg p index item count =
     (let slotPosition = getSlotPosition item; ret = initialRet cfg slotPosition in
      case index of
        Slot CONST_SLOT_HEAD \<Rightarrow> if SLOTP_HEAD \<in> slotPosition then RETURNVALUE_NOERROR else ret
      | Slot CONST_SLOT_NECKLACE \<Rightarrow>
          if SLOTP_NECKLACE \<in> slotPosition then RETURNVALUE_NOERROR else ret
      | Slot CONST_SLOT_BACKPACK \<Rightarrow>
          if SLOTP_BACKPACK \<in> slotPosition then RETURNVALUE_NOERROR else ret
      | Slot CONST_SLOT_ARMOR \<Rightarrow> if SLOTP_ARMOR \<in> slotPosition then RETURNVALUE_NOERROR else ret
      | Slot CONST_SLOT_RIGHT \<Rightarrow>
          if SLOTP_RIGHT \<in> slotPosition then rightHand cfg p item count else ret
      | Slot CONST_SLOT_LEFT \<Rightarrow>
          if SLOTP_LEFT \<in> slotPosition then leftHand cfg p item count else ret
      | Slot CONST_SLOT_LEGS \<Rightarrow> if SLOTP_LEGS \<in> slotPosition then RETURNVALUE_NOERROR else ret
      | Slot CONST_SLOT_FEET \<Rightarrow> if SLOTP_FEET \<in> slotPosition then RETURNVALUE_NOERROR else ret
      | Slot CONST_SLOT_RING \<Rightarrow> if SLOTP_RING \<in> slotPosition then RETURNVALUE_NOERROR else ret
      | Slot CONST_SLOT_AMMO \<Rightarrow>
          if SLOTP_AMMO \<in> slotPosition \<or> CLASSIC_EQUIPMENT_SLOTS cfg then RETURNVALUE_NOERROR
          else ret
      | Slot CONST_SLOT_WHEREEVER \<Rightarrow> RETURNVALUE_NOTENOUGHROOM
      | INDEX_WHEREEVER \<Rightarrow> RETURNVALUE_NOTENOUGHROOM
      | Slot CONST_SLOT_STORE_INBOX \<Rightarrow> RETURNVALUE_NOTPOSSIBLE
      | OtherIndex \<Rightarrow> RETURNVALUE_NOTPOSSIBLE)"

text \<open>
  The checks that follow a slot check with result no-error or not-enough-room:
  exchange, capacity, and the equip hook of the move events.
\<close>

definition afterSlotCheck ::
  "world \<Rightarrow> player \<Rightarrow> slot_index \<Rightarrow> Item \<Rightarrow> u32 \<Rightarrow> ReturnValue \<Rightarrow> ReturnValue" where
  "afterSlotCheck W p index item count ret =
     (if ret = RETURNVALUE_NOERROR \<or> ret = RETURNVALUE_NOTENOUGHROOM then
        (let inventoryItem = (case index of Slot s \<Rightarrow> getInventoryItem p s | _ \<Rightarrow> None);
             needExchange =
               (case inventoryItem of
                  None \<Rightarrow> False
                | Some i \<Rightarrow> \<not> isStackable i \<or> getID i \<noteq> getID item)
         in
           if needExchange then RETURNVALUE_NEEDEXCHANGE
           else if \<not> hasCapacity p item count then RETURNVALUE_NOTENOUGHCAPACITY
           else if \<not> onPlayerEquip W p item index then RETURNVALUE_CANNOTBEDRESSED
           else ret)
      else ret)"

text \<open>\<open>queryAdd\<close>; a thing that is not an item is \<open>None\<close>.\<close>

definition queryAdd ::
  "config \<Rightarrow> world \<Rightarrow> player \<Rightarrow> slot_index \<Rightarrow> Item option \<Rightarrow> u32 \<Rightarrow> CylinderFlag set \<Rightarrow> ReturnValue" where
  "queryAdd cfg W p index thing count flags =
     (case thing of
        None \<Rightarrow> RETURNVALUE_NOTPOSSIBLE
      | Some item \<Rightarrow>
          if FLAG_CHILDISOWNER \<in> flags then
            (if FLAG_NOLIMIT \<in> flags \<or> hasCapacity p item count then RETURNVALUE_NOERROR
             else RETURNVALUE_NOTENOUGHCAPACITY)
          else if \<not> isPickupable item then RETURNVALUE_CANNOTPICKUP
          else afterSlotCheck W p index item count (slotCheck cfg p index item count))"

subsection \<open>The properties of the specification, in its words\<close>

text \<open>
  The level percent as the specification states it:
  \<open>floor((experience - expFor(level)) / (expFor(level+1) - expFor(level)) * 10000) / 100\<close>
  when the interval is positive, else 0.
\<close>

definition levelPercent_spec :: "world \<Rightarrow> player \<Rightarrow> rat" where
  "levelPercent_spec W p =
     (let c = uint (getExpForLevel W (level p)); n = uint (getExpForLevel W (level p + 1)) in
      if c < n then
        of_int \<lfloor>(of_int (uint (experience p) - c) :: rat) / of_int (n - c) * 10000\<rfloor> / 100
      else 0)"

text \<open>
  The unfair fight reduction as the specification states it: the floor of
  \<open>level / sumLevels * 100\<close>, clamped to at least 20.
\<close>

definition unfairFightReduction_spec :: "u32 \<Rightarrow> u32 \<Rightarrow> int" where
  "unfairFightReduction_spec sumLevels lvl =
     max 20 \<lfloor>(of_int (uint lvl) :: rat) / of_int (uint sumLevels) * 100\<rfloor>"




subsection \<open>Concrete inputs\<close>

text \<open>
  An experience table to run the model on: the cubic table customary for this family
  of servers, \<open>(50 l^3 - 150 l^2 + 400 l) / 3\<close> with \<open>l = level - 1\<close>, in 64-bit
  unsigned arithmetic. Level 1 needs 0 points, level 2 needs 100, level 8 needs 4200.
\<close>

definition expTable :: "u32 \<Rightarrow> u64" where
  "expTable lv =
     (let l = (scast (lv - 1) :: u64) in (50 * l * l * l - 150 * l * l + 400 * l) div 3)"

definition exampleVocation :: Vocation where
  "exampleVocation =
     \<lparr>vocId = 0,
      getReqSkillTries = (\<lambda>s l. 50 * ucast l),
      getReqMana = (\<lambda>m. 100 * ucast m),
      getHPGain = 5, getManaGain = 5, getCapGain = 10\<rparr>"

text \<open>A vocation whose curves are flat: every level is a plateau.\<close>

definition plateauVocation :: Vocation where
  "plateauVocation =
     exampleVocation\<lparr>getReqSkillTries := (\<lambda>s l. 100), getReqMana := (\<lambda>m. 100)\<rparr>"

definition exampleSkill :: Skill where
  "exampleSkill = \<lparr>tries = 0, skill_level = 10, percent = 0\<rparr>"

definition examplePlayer :: player where
  "examplePlayer =
     \<lparr>pid = 1, guid = 1, pname = ''Player'', playerFlags = {}, messages = [],
      position = \<lparr>pos_x = 100, pos_y = 100, pos_z = 7\<rparr>,
      loginPosition = \<lparr>pos_x = 100, pos_y = 100, pos_z = 7\<rparr>,
      operatingSystem = CLIENTOS_NEW_WINDOWS,
      storageMap = Map.empty, outfits = [], familiars = [],
      VIPList = {||}, maxVipEntries = 0, premiumDays = 0,
      skull = SKULL_NONE, skullTicks = 0, unjustifiedKills = [],
      attackedSet = {||}, pzLocked = False,
      wheelOfDestinyCreaturesNearby = 0,
      wheelOfDestinyMajorStats = (\<lambda>t. 0),
      wheelOfDestinyOnThinkTimers = (\<lambda>t. 0),
      vocation = exampleVocation,
      skills = (\<lambda>s. exampleSkill),
      magLevel = 0, manaSpent = 0, magLevelPercent = 0,
      level = 1, experience = 0, levelPercent = 0,
      health = 150, healthMax = 150, mana = 55, manaMax = 55,
      capacity = 40000, bonusCapacity = 0, inventoryWeight = 0,
      inventory = (\<lambda>s. None),
      skillLoss = True, damageMap = [],
      blessings = (\<lambda>i. 0), charmRuneBless = 0, conditions = []\<rparr>"

definition exampleWorld :: world where
  "exampleWorld =
     \<lparr>getExpForLevel = expTable, VOCATION_NONE = 0, noneVocation = exampleVocation,
      getPromotedVocation = (\<lambda>v. v),
      getPlayerByID = (\<lambda>i. None),
      getMonsterRaceId = (\<lambda>n. None),
      eventPlayerOnGainSkillTries = (\<lambda>p s c. c),
      eventPlayerOnGainExperience = (\<lambda>p s e. e),
      eventPlayerOnLoseExperience = (\<lambda>p e. e),
      onPlayerEquip = (\<lambda>p i s. True)\<rparr>"

definition exampleConfig :: config where
  "exampleConfig =
     \<lparr>CLASSIC_EQUIPMENT_SLOTS = False, FREE_PREMIUM = False,
      DAY_KILLS_TO_RED = 3, WEEK_KILLS_TO_RED = 5, MONTH_KILLS_TO_RED = 10,
      RED_SKULL_DURATION = 30, BLACK_SKULL_DURATION = 45, DEATH_LOSE_PERCENT = - 1\<rparr>"

text \<open>A bow (a two-handed distance weapon for either hand) and a quiver.\<close>

definition bow :: Item where
  "bow = \<lparr>itemRef = 1, getID = 3350, getSlotPosition = {SLOTP_LEFT, SLOTP_RIGHT, SLOTP_TWO_HAND},
           getWeaponType = WEAPON_DISTANCE, isPickupable = True, isStackable = False,
           getItemCount = 1, isContainer = False, getWeight = 3100, getBaseWeight = 3100,
           topParent = None\<rparr>"

definition quiver :: Item where
  "quiver = \<lparr>itemRef = 2, getID = 35562, getSlotPosition = {SLOTP_LEFT, SLOTP_RIGHT},
              getWeaponType = WEAPON_QUIVER, isPickupable = True, isStackable = False,
              getItemCount = 1, isContainer = True, getWeight = 1500, getBaseWeight = 1500,
              topParent = Some 1\<rparr>"



text \<open>
  Victims of unjustified kills, and the player after five such kills within seven
  minutes, recorded one after another from a player without skull.
\<close>

definition victim :: "u32 \<Rightarrow> player" where
  "victim n = examplePlayer\<lparr>pid := n, guid := n, pname := ''Victim''\<rparr>"

definition fiveKills :: player where
  "fiveKills =
     addUnjustifiedDead exampleConfig WORLD_TYPE_PVP 99400
       (addUnjustifiedDead exampleConfig WORLD_TYPE_PVP 99300
         (addUnjustifiedDead exampleConfig WORLD_TYPE_PVP 99200
           (addUnjustifiedDead exampleConfig WORLD_TYPE_PVP 99100
             (addUnjustifiedDead exampleConfig WORLD_TYPE_PVP 99000 examplePlayer (victim 2))
             (victim 3))
           (victim 4))
         (victim 5))
       (victim 6)"

section \<open>Properties\<close>

subsection \<open>Arithmetic of the rounding operations\<close>

lemma floor_numeral_div:
  "\<lfloor>(numeral a :: rat) / numeral b\<rfloor> = numeral a div numeral b"
  using floor_divide_of_int_eq [of "numeral a" "numeral b", where 'a = rat] by simp

subsection \<open>Plateaus of the advancement curves\<close>

text \<open>
  C5: when the required-tries curve of the vocation plateaus at the current level of a
  skill, \<open>addSkillAdvance\<close> leaves the player (so the level and the tries of the skill)
  unchanged for any count; when the required-mana curve plateaus at the current magic
  level, \<open>addManaSpent\<close> leaves the player (so \<open>magLevel\<close> and \<open>manaSpent\<close>) unchanged.
\<close>

theorem plateau_no_op:
  "(getReqSkillTries (vocation p) skill (skill_level (skills p skill) + 1)
      \<le> getReqSkillTries (vocation p) skill (skill_level (skills p skill))
    \<longrightarrow> addSkillAdvance W p skill count = p)
   \<and> (getReqMana (vocation q) (magLevel q + 1) \<le> getReqMana (vocation q) (magLevel q)
    \<longrightarrow> addManaSpent W q amount = q)"
  by (simp add: addSkillAdvance_def addManaSpent_def Let_def)

theorem plateau_no_op_witness:
  "getReqSkillTries plateauVocation SKILL_SWORD (10 + 1) \<le> getReqSkillTries plateauVocation SKILL_SWORD 10
   \<and> addSkillAdvance exampleWorld (examplePlayer\<lparr>vocation := plateauVocation\<rparr>) SKILL_SWORD 500
       = examplePlayer\<lparr>vocation := plateauVocation\<rparr>
   \<and> getReqMana plateauVocation (0 + 1) \<le> getReqMana plateauVocation 0
   \<and> addManaSpent exampleWorld (examplePlayer\<lparr>vocation := plateauVocation\<rparr>) 500
       = examplePlayer\<lparr>vocation := plateauVocation\<rparr>"
  using plateau_no_op
    [where p = "examplePlayer\<lparr>vocation := plateauVocation\<rparr>" and skill = SKILL_SWORD
       and q = "examplePlayer\<lparr>vocation := plateauVocation\<rparr>" and W = exampleWorld
       and count = 500 and amount = 500]
  by (simp add: examplePlayer_def plateauVocation_def exampleVocation_def exampleSkill_def)

subsection \<open>Unjustified kills\<close>

lemma countKills_eq:
  "countKills now ks (d, w, m) =
     (d + of_nat (length (filter (\<lambda>k. now - kill_time k \<le> 4 * 60 * 60) ks)),
      w + of_nat (length (filter (\<lambda>k. now - kill_time k \<le> 7 * 24 * 60 * 60) ks)),
      m + of_nat (length (filter (\<lambda>k. now - kill_time k \<le> 30 * 24 * 60 * 60) ks)))"
  by (induction ks arbitrary: d w m) (simp_all add: Let_def)

lemma skull_duration_ticks:
  fixes d :: i32
  shows "sint (86400000 * (scast d :: i64)) = 86400000 * sint d"
proof -
  have up: "sint (scast d :: i64) = sint d"
    by (rule sint_up_scast) (simp add: is_up)
  have lo: "- (2 ^ 31) \<le> sint d" and hi: "sint d < 2 ^ 31"
    using sint_range_size [of d] by (simp_all add: word_size)
  have "sint (86400000 * (scast d :: i64)) = signed_take_bit 63 (86400000 * sint d)"
    by (simp add: sint_word_mult up)
  also have "\<dots> = 86400000 * sint d"
    using lo hi by (simp add: signed_take_bit_int_eq_self_iff)
  finally show ?thesis .
qed

text \<open>
  C6: for a player whose skull is not already black (so also for a player who started
  without skull and has become red on the way) and who lacks the NotGainInFight flag,
  in a world that is not enforced PvP, with the daily threshold configured as 3,
  recording a kill of another player that is the sixth within four hours sets the skull
  to black and the skull ticks to \<open>BLACK_SKULL_DURATION * 86400 * 1000\<close>.
\<close>

theorem sixth_unjustified_kill_black_skull:
  assumes "skull p \<noteq> SKULL_BLACK"
    and "\<not> hasFlag p PlayerFlag_NotGainInFight"
    and "wt \<noteq> WORLD_TYPE_PVP_ENFORCED"
    and "pid attacked \<noteq> pid p"
    and "sint (DAY_KILLS_TO_RED cfg) = 3"
    and "length (filter (\<lambda>k. now - kill_time k \<le> 4 * 60 * 60) (unjustifiedKills p)) = 5"
  shows "skull (addUnjustifiedDead cfg wt now p attacked) = SKULL_BLACK
         \<and> sint (skullTicks (addUnjustifiedDead cfg wt now p attacked))
             = sint (BLACK_SKULL_DURATION cfg) * 86400 * 1000"
proof -
  let ?ks = "unjustifiedKills p @ [\<lparr>kill_target = guid attacked, kill_time = now, unavenged = True\<rparr>]"
  have day: "fst (countKills now ?ks (0, 0, 0)) = 6"
    using assms(6) by (simp add: countKills_eq)
  obtain d w m where c: "countKills now ?ks (0, 0, 0) = (d, w, m)"
    by (cases "countKills now ?ks (0, 0, 0)") auto
  with day have d: "d = 6" by simp
  have black: "addUnjustifiedDead cfg wt now p attacked =
      (sendTextMessage MESSAGE_EVENT_ADVANCE
         [Str ''Warning! The murder of '', Str (pname attacked), Str '' was not justified.''] p)
      \<lparr>unjustifiedKills := ?ks, skull := SKULL_BLACK,
        skullTicks := scast (BLACK_SKULL_DURATION cfg) * 24 * 60 * 60 * 1000\<rparr>"
    using assms(1-5) c d
    by (simp add: addUnjustifiedDead_def Let_def sendTextMessage_def getSkull_def hasFlag_def)
  show ?thesis
    unfolding black by (simp add: skull_duration_ticks)
qed

text \<open>
  The run of the claim: a player without skull records six kills within four hours. The
  third kill makes the skull red, it is still red after the fifth, and the sixth makes
  it black.
\<close>

lemma fiveKills_value:
  "fiveKills = examplePlayer
     \<lparr>messages :=
        [(MESSAGE_EVENT_ADVANCE, [Str ''Warning! The murder of '', Str ''Victim'', Str '' was not justified.'']),
         (MESSAGE_EVENT_ADVANCE, [Str ''Warning! The murder of '', Str ''Victim'', Str '' was not justified.'']),
         (MESSAGE_EVENT_ADVANCE, [Str ''Warning! The murder of '', Str ''Victim'', Str '' was not justified.'']),
         (MESSAGE_EVENT_ADVANCE, [Str ''Warning! The murder of '', Str ''Victim'', Str '' was not justified.'']),
         (MESSAGE_EVENT_ADVANCE, [Str ''Warning! The murder of '', Str ''Victim'', Str '' was not justified.''])],
      skull := SKULL_RED, skullTicks := 2592000000,
      unjustifiedKills :=
        [\<lparr>kill_target = 2, kill_time = 99000, unavenged = True\<rparr>,
         \<lparr>kill_target = 3, kill_time = 99100, unavenged = True\<rparr>,
         \<lparr>kill_target = 4, kill_time = 99200, unavenged = True\<rparr>,
         \<lparr>kill_target = 5, kill_time = 99300, unavenged = True\<rparr>,
         \<lparr>kill_target = 6, kill_time = 99400, unavenged = True\<rparr>]\<rparr>"
  by (simp add: fiveKills_def victim_def addUnjustifiedDead_def Let_def sendTextMessage_def
        getSkull_def hasFlag_def examplePlayer_def exampleConfig_def)

theorem sixth_unjustified_kill_black_skull_witness:
  "skull examplePlayer = SKULL_NONE
   \<and> skull fiveKills = SKULL_RED
   \<and> skull (addUnjustifiedDead exampleConfig WORLD_TYPE_PVP 100000 fiveKills (victim 7)) = SKULL_BLACK
   \<and> sint (skullTicks (addUnjustifiedDead exampleConfig WORLD_TYPE_PVP 100000 fiveKills (victim 7)))
       = 45 * 86400 * 1000"
  using sixth_unjustified_kill_black_skull
    [where cfg = exampleConfig and wt = WORLD_TYPE_PVP and now = 100000
       and attacked = "victim 7" and p = fiveKills]
  by (simp add: fiveKills_value victim_def examplePlayer_def exampleConfig_def hasFlag_def)

subsection \<open>Battle Instinct\<close>













subsection \<open>VIP list\<close>







subsection \<open>Storage values\<close>

lemma addStorageValue_reserved_skips:
  assumes "inr RESERVED_RANGE k" and "inr OUTFITS_RANGE k \<or> \<not> inr MOUNTS_RANGE k"
  shows "storageMap (addStorageValue inr p k v) = storageMap p"
  using assms by (auto simp add: addStorageValue_def)

lemma addStorageValue_never_stores_minus_one:
  assumes "- 1 \<notin> ran (storageMap p)"
  shows "- 1 \<notin> ran (storageMap (addStorageValue inr p k v))"
  using assms by (auto simp add: addStorageValue_def storeValue_def ran_def)

text \<open>
  C9, as stated, fails: a key of the outfits range is decoded into the outfit list and
  nothing is stored under it, so reading it back gives \<open>(false, -1)\<close>.
\<close>

theorem addStorageValue_outfit_key_counterexample:
  "(5 :: i32) \<noteq> - 1
   \<and> getStorageValue (addStorageValue PSTRG_ranges examplePlayer 10001000 5) 10001000 = (False, - 1)"
  by (simp add: getStorageValue_def addStorageValue_def PSTRG_ranges_def examplePlayer_def)

text \<open>
  C9, amended: for every key \<open>k\<close> that is outside the reserved block, or inside it in
  the mounts range and not in the outfits range, and every value \<open>v\<close> other than -1,
  \<open>addStorageValue(k, v)\<close> followed by \<open>getStorageValue(k)\<close> returns true and yields
  \<open>v\<close>.
\<close>

theorem addStorageValue_then_get:
  assumes "v \<noteq> - 1"
    and "\<not> inr RESERVED_RANGE k \<or> (\<not> inr OUTFITS_RANGE k \<and> inr MOUNTS_RANGE k)"
  shows "getStorageValue (addStorageValue inr p k v) k = (True, v)"
  using assms by (auto simp add: getStorageValue_def addStorageValue_def storeValue_def)

theorem addStorageValue_then_get_witness:
  "(7 :: i32) \<noteq> - 1 \<and> \<not> PSTRG_ranges RESERVED_RANGE 42
   \<and> getStorageValue (addStorageValue PSTRG_ranges examplePlayer 42 7) 42 = (True, 7)"
proof -
  have a: "(7 :: i32) \<noteq> - 1" by simp
  have b: "\<not> PSTRG_ranges RESERVED_RANGE 42" by (simp add: PSTRG_ranges_def)
  from addStorageValue_then_get [where v = 7 and inr = PSTRG_ranges and k = 42 and p = examplePlayer] a b
  show ?thesis by simp
qed

text \<open>
  C10: for every key \<open>k\<close> outside the reserved block, \<open>addStorageValue(k, -1)\<close> removes
  \<open>k\<close> from the storage map, and a following \<open>getStorageValue(k)\<close> returns false with
  the value -1.
\<close>

theorem addStorageValue_minus_one_erases:
  assumes "\<not> inr RESERVED_RANGE k"
  shows "k \<notin> dom (storageMap (addStorageValue inr p k (- 1)))
         \<and> getStorageValue (addStorageValue inr p k (- 1)) k = (False, - 1)"
  using assms by (simp add: getStorageValue_def addStorageValue_def storeValue_def)

theorem addStorageValue_minus_one_erases_witness:
  "\<not> PSTRG_ranges RESERVED_RANGE 42
   \<and> getStorageValue
        (addStorageValue PSTRG_ranges (addStorageValue PSTRG_ranges examplePlayer 42 7) 42 (- 1)) 42
      = (False, - 1)"
proof -
  have b: "\<not> PSTRG_ranges RESERVED_RANGE 42" by (simp add: PSTRG_ranges_def)
  from addStorageValue_minus_one_erases
         [where inr = PSTRG_ranges and k = 42 and p = "addStorageValue PSTRG_ranges examplePlayer 42 7"] b
  show ?thesis by simp
qed

end
